theory Spec2Isabelle
  imports Complex_Main "HOL-Library.AList" "HOL-Library.Multiset"
begin

section \<open>Python exceptions and the solver state\<close>

text \<open>
  The exceptions that the modelled parts of \<^verbatim>\<open>ODE.py\<close> can raise.  \<open>NonFinite\<close> stands
  for a numpy division by zero, which yields inf/nan instead of a real number.
\<close>

datatype pyerror =
    TypeError
  | ValueError
  | AttributeError
  | IndexError
  | UnboundLocalError
  | NonFinite

text \<open>
  The attributes \<^verbatim>\<open>self.t\<close>, \<^verbatim>\<open>self.u\<close> and \<^verbatim>\<open>self.n\<close> of a solver instance during
  a solve.  Floats are modelled as real numbers; the entries of \<^verbatim>\<open>u\<close> are of type
  \<open>'v\<close>, which is \<open>real\<close> for a scalar ODE (\<^verbatim>\<open>neq == 1\<close>).  Attributes that a solver
  class adds extend the record.
\<close>

record 'v solver_state =
  self_t :: "real list"
  self_u :: "'v list"
  self_n :: nat

text \<open>The wrapped right-hand side \<^verbatim>\<open>self.f(u, t)\<close> and Jacobian \<^verbatim>\<open>self.jac(u, t)\<close>.\<close>

type_synonym rhs = "real \<Rightarrow> real \<Rightarrow> real"

text \<open>
  An advance method reads \<^verbatim>\<open>t[n]\<close>, \<^verbatim>\<open>t[n+1]\<close> and \<^verbatim>\<open>u[n]\<close>; outside the arrays
  Python raises \<^verbatim>\<open>IndexError\<close>.
\<close>

definition in_grid :: "('v, 'x) solver_state_scheme \<Rightarrow> bool" where
  "in_grid s \<longleftrightarrow> self_n s + 1 < length (self_t s) \<and> self_n s < length (self_u s)"

section \<open>Implicit schemes: \<^verbatim>\<open>Picard_update\<close> and \<^verbatim>\<open>Newton_system\<close>\<close>

datatype implicit_scheme =
    BackwardEuler
  | Backward2Step
  | ThetaRule real
  | MidpointImplicit

fun Picard_update :: "implicit_scheme \<Rightarrow> rhs \<Rightarrow> real solver_state \<Rightarrow> real \<Rightarrow> real" where
  "Picard_update BackwardEuler f s ukp1 =
     (let u = self_u s; n = self_n s; t = self_t s;
          dt = t ! (n + 1) - t ! n
      in u ! n + dt * f ukp1 (t ! (n + 1)))"
| "Picard_update Backward2Step f s ukp1 =
     (let u = self_u s; n = self_n s; t = self_t s
      in if n = 0 then
           (let dt = t ! (n + 1) - t ! n
            in u ! n + dt * f ukp1 (t ! (n + 1)))
         else
           (let dt2 = t ! (n + 1) - t ! (n - 1)
            in 4 / 3 * u ! n - 1 / 3 * u ! (n - 1) + (1 / 3) * dt2 * f ukp1 (t ! (n + 1))))"
| "Picard_update (ThetaRule theta) f s ukp1 =
     (let u = self_u s; n = self_n s; t = self_t s;
          dt = t ! (n + 1) - t ! n
      in u ! n + theta * dt * f ukp1 (t ! (n + 1)) + (1 - theta) * dt * f (u ! n) (t ! n))"
| "Picard_update MidpointImplicit f s ukp1 =
     (let u = self_u s; n = self_n s; t = self_t s;
          dt = t ! (n + 1) - t ! n
      in u ! n + dt * f ((ukp1 + u ! n) / 2) (t ! n + dt / 2))"

text \<open>
  \<^verbatim>\<open>Newton_system\<close> returns the pair \<^verbatim>\<open>(F, J)\<close>; for \<^verbatim>\<open>neq == 1\<close> the matrix
  \<^verbatim>\<open>np.eye(self.neq)\<close> is the number 1.
\<close>

fun Newton_system :: "implicit_scheme \<Rightarrow> rhs \<Rightarrow> rhs \<Rightarrow> real solver_state \<Rightarrow> real \<Rightarrow> real \<times> real" where
  "Newton_system BackwardEuler f jac s ukp1 =
     (let u = self_u s; n = self_n s; t = self_t s;
          dt = t ! (n + 1) - t ! n;
          F = ukp1 - (u ! n + dt * f ukp1 (t ! (n + 1)));
          J = 1 - dt * jac ukp1 (t ! (n + 1))
      in (F, J))"
| "Newton_system Backward2Step f jac s ukp1 =
     (let u = self_u s; n = self_n s; t = self_t s
      in if n = 0 then
           (let dt = t ! (n + 1) - t ! n;
                F = ukp1 - (u ! n + dt * f ukp1 (t ! (n + 1)));
                J = 1 - dt * jac ukp1 (t ! (n + 1))
            in (F, J))
         else
           (let dt2 = t ! (n + 1) - t ! (n - 1);
                F = ukp1 - (4 / 3 * u ! n - 1 / 3 * u ! (n - 1)
                            + (1 / 3) * dt2 * f ukp1 (t ! (n + 1)));
                J = 1 - (1 / 3) * dt2 * jac ukp1 (t ! (n + 1))
            in (F, J)))"
| "Newton_system (ThetaRule theta) f jac s ukp1 =
     (let u = self_u s; n = self_n s; t = self_t s;
          dt = t ! (n + 1) - t ! n;
          F = ukp1 - (u ! n + theta * dt * f ukp1 (t ! (n + 1))
                      + (1 - theta) * dt * f (u ! n) (t ! n));
          J = 1 - theta * dt * jac ukp1 (t ! (n + 1))
      in (F, J))"
| "Newton_system MidpointImplicit f jac s ukp1 =
     (let u = self_u s; n = self_n s; t = self_t s;
          dt = t ! (n + 1) - t ! n;
          F = ukp1 - u ! n + dt * f ((ukp1 + u ! n) / 2) (t ! n + dt / 2);
          J = 1 - dt * jac ukp1 (t ! (n + 1))
      in (F, J))"

text \<open>
  The residual as the specification words it: the trial guess minus the scheme's
  right-hand side, which is the value that \<^verbatim>\<open>Picard_update\<close> computes.
\<close>

definition spec_residual :: "implicit_scheme \<Rightarrow> rhs \<Rightarrow> real solver_state \<Rightarrow> real \<Rightarrow> real" where
  "spec_residual scheme f s ukp1 = ukp1 - Picard_update scheme f s ukp1"

definition spec_midpoint_residual :: "rhs \<Rightarrow> real solver_state \<Rightarrow> real \<Rightarrow> real" where
  "spec_midpoint_residual f s ukp1 =
     (let un = self_u s ! self_n s;
          dt = self_t s ! (self_n s + 1) - self_t s ! self_n s
      in ukp1 - (un + dt * f ((ukp1 + un) / 2) (self_t s ! self_n s + dt / 2)))"

section \<open>The inner nonlinear iteration of \<^verbatim>\<open>SolverImplicit.advance\<close>\<close>

record implicit_parameters =
  nonlinear_solver :: string
  max_iter :: int
  eps_iter :: real
  relaxation :: real

text \<open>
  One pass through the body of the \<^verbatim>\<open>while\<close> loop computes \<^verbatim>\<open>unew\<close> from the current
  guess \<^verbatim>\<open>u_new\<close>.  A value of \<^verbatim>\<open>nonlinear_solver\<close> other than the three names leaves
  \<^verbatim>\<open>unew\<close> unbound, so its first use raises \<^verbatim>\<open>UnboundLocalError\<close>.
\<close>

definition iterate_unew ::
  "implicit_scheme \<Rightarrow> rhs \<Rightarrow> rhs \<Rightarrow> implicit_parameters \<Rightarrow> real solver_state \<Rightarrow> real \<Rightarrow> pyerror + real"
where
  "iterate_unew scheme f jac p s u_new =
     (let n = self_n s; un = self_u s ! n; tn = self_t s ! n;
          dt = self_t s ! (n + 1) - tn
      in if nonlinear_solver p = ''Picard'' then Inr (Picard_update scheme f s u_new)
         else if nonlinear_solver p = ''Newton'' then
           (case Newton_system scheme f jac s u_new of
              (F, Jac) \<Rightarrow> if Jac = 0 then Inl NonFinite else Inr (u_new - F / Jac))
         else if nonlinear_solver p = ''FixedPoint'' then Inr (un + dt * f u_new tn)
         else Inl UnboundLocalError)"

function SolverImplicit_loop ::
  "implicit_scheme \<Rightarrow> rhs \<Rightarrow> rhs \<Rightarrow> implicit_parameters \<Rightarrow> real solver_state
     \<Rightarrow> int \<Rightarrow> real \<Rightarrow> real \<Rightarrow> pyerror + real"
where
  "SolverImplicit_loop scheme f jac p s i error u_new =
     (if i \<le> max_iter p \<and> error > eps_iter p then
        (case iterate_unew scheme f jac p s u_new of
           Inl e \<Rightarrow> Inl e
         | Inr unew \<Rightarrow>
             (let error' = \<bar>unew - u_new\<bar>;
                  r = relaxation p;
                  un = self_u s ! self_n s
              in SolverImplicit_loop scheme f jac p s (i + 1) error' (r * unew + (1 - r) * un)))
      else Inr u_new)"
  by pat_completeness auto
termination
  by (relation "measure (\<lambda>(scheme, f, jac, p, s, i, error, u_new). nat (max_iter p + 1 - i))") auto

declare SolverImplicit_loop.simps [simp del]

definition SolverImplicit_advance ::
  "implicit_scheme \<Rightarrow> rhs \<Rightarrow> rhs \<Rightarrow> implicit_parameters \<Rightarrow> real solver_state \<Rightarrow> pyerror + real"
where
  "SolverImplicit_advance scheme f jac p s =
     (if \<not> in_grid s then Inl IndexError
      else
        (let n = self_n s;
             un = self_u s ! n; t_new = self_t s ! (n + 1); tn = self_t s ! n;
             u_new = un + (t_new - tn) * f un tn
         in SolverImplicit_loop scheme f jac p s 1 (10 ^ 30) u_new))"

text \<open>
  The next trial value as the specification words it: the relaxation blend of the
  just-computed value with the guess held before the iteration.
\<close>

definition spec_relaxed :: "real \<Rightarrow> real \<Rightarrow> real \<Rightarrow> real" where
  "spec_relaxed r unew u_old = r * unew + (1 - r) * u_old"

text \<open>
  The loop as the specification words it, differing from \<open>SolverImplicit_loop\<close> only in the
  blend, which here uses the previous trial guess.
\<close>

function spec_SolverImplicit_loop ::
  "implicit_scheme \<Rightarrow> rhs \<Rightarrow> rhs \<Rightarrow> implicit_parameters \<Rightarrow> real solver_state
     \<Rightarrow> int \<Rightarrow> real \<Rightarrow> real \<Rightarrow> pyerror + real"
where
  "spec_SolverImplicit_loop scheme f jac p s i error u_old =
     (if i \<le> max_iter p \<and> error > eps_iter p then
        (case iterate_unew scheme f jac p s u_old of
           Inl e \<Rightarrow> Inl e
         | Inr unew \<Rightarrow>
             spec_SolverImplicit_loop scheme f jac p s (i + 1) \<bar>unew - u_old\<bar>
               (spec_relaxed (relaxation p) unew u_old))
      else Inr u_old)"
  by pat_completeness auto
termination
  by (relation "measure (\<lambda>(scheme, f, jac, p, s, i, error, u_old). nat (max_iter p + 1 - i))") auto

declare spec_SolverImplicit_loop.simps [simp del]

text \<open>Concrete inputs: \<^verbatim>\<open>u' = 1\<close> and \<^verbatim>\<open>u' = -u\<close> on the grid \<^verbatim>\<open>[0, 1]\<close>.\<close>

definition midpoint_state :: "real solver_state" where
  "midpoint_state = \<lparr>self_t = [0, 1], self_u = [0, 0], self_n = 0\<rparr>"

definition relax_state :: "real solver_state" where
  "relax_state = \<lparr>self_t = [0, 1], self_u = [1, 0], self_n = 0\<rparr>"

definition relax_parameters :: implicit_parameters where
  "relax_parameters =
     \<lparr>nonlinear_solver = ''Picard'', max_iter = 1, eps_iter = 1 / 10000, relaxation = 1 / 2\<rparr>"

section \<open>Python values, parameter specifications and solver instances\<close>

text \<open>
  The values a parameter can take, as far as the registry \<^verbatim>\<open>_parameters\<close> names their
  types: \<^verbatim>\<open>None\<close>, \<^verbatim>\<open>bool\<close>, \<^verbatim>\<open>int\<close>, \<^verbatim>\<open>float\<close>, \<^verbatim>\<open>str\<close>, \<^verbatim>\<open>list\<close>, \<^verbatim>\<open>tuple\<close>,
  \<^verbatim>\<open>numpy.ndarray\<close> (one-dimensional, and zero-dimensional as \<^verbatim>\<open>np.asarray\<close> makes of a
  string or a dict), \<^verbatim>\<open>dict\<close> and callable objects (named).
\<close>

datatype pyval =
    PNone
  | PBool bool
  | PInt int
  | PFloat real
  | PStr string
  | PList "pyval list"
  | PTuple "pyval list"
  | PArray "pyval list"
  | PArray0 pyval
  | PDict "(string \<times> pyval) list"
  | PCallable string

text \<open>
  The entries of a \<^verbatim>\<open>type\<close> property.  \<open>Tcallable\<close> is the builtin function
  \<^verbatim>\<open>callable\<close>; \<open>Tlambda\<close> is the anonymous function given as type of \<^verbatim>\<open>specialtimes\<close>.
  Neither is a class, so \<^verbatim>\<open>isinstance\<close> with one of them raises \<^verbatim>\<open>TypeError\<close>.
\<close>

datatype pytype =
    Tcallable | Ttuple | Tlist | Tndarray | Tdict | Tbool | Tfloat | Tstr | Tint | Tlambda

fun py_callable :: "pyval \<Rightarrow> bool" where
  "py_callable (PCallable _) = True"
| "py_callable _ = False"

text \<open>\<^verbatim>\<open>isinstance(value, tp)\<close>; \<open>None\<close> when it raises.  A \<^verbatim>\<open>bool\<close> is an \<^verbatim>\<open>int\<close>.\<close>

fun isinstance :: "pyval \<Rightarrow> pytype \<Rightarrow> bool option" where
  "isinstance v Tcallable = None"
| "isinstance v Tlambda = None"
| "isinstance v Ttuple = Some (case v of PTuple _ \<Rightarrow> True | _ \<Rightarrow> False)"
| "isinstance v Tlist = Some (case v of PList _ \<Rightarrow> True | _ \<Rightarrow> False)"
| "isinstance v Tndarray = Some (case v of PArray _ \<Rightarrow> True | PArray0 _ \<Rightarrow> True | _ \<Rightarrow> False)"
| "isinstance v Tdict = Some (case v of PDict _ \<Rightarrow> True | _ \<Rightarrow> False)"
| "isinstance v Tbool = Some (case v of PBool _ \<Rightarrow> True | _ \<Rightarrow> False)"
| "isinstance v Tfloat = Some (case v of PFloat _ \<Rightarrow> True | _ \<Rightarrow> False)"
| "isinstance v Tstr = Some (case v of PStr _ \<Rightarrow> True | _ \<Rightarrow> False)"
| "isinstance v Tint = Some (case v of PInt _ \<Rightarrow> True | PBool _ \<Rightarrow> True | _ \<Rightarrow> False)"

text \<open>The numeric value of an \<^verbatim>\<open>int\<close>, \<^verbatim>\<open>bool\<close> or \<^verbatim>\<open>float\<close>.\<close>

fun num_of :: "pyval \<Rightarrow> real option" where
  "num_of (PBool b) = Some (if b then 1 else 0)"
| "num_of (PInt i) = Some (of_int i)"
| "num_of (PFloat x) = Some x"
| "num_of _ = None"

text \<open>
  Python 2 compares a number with any other object: \<^verbatim>\<open>None\<close> is smaller than every
  number, and every number is smaller than an object of any other type.
\<close>

definition py_le_num :: "pyval \<Rightarrow> real \<Rightarrow> bool" where
  "py_le_num low x = (case num_of low of Some l \<Rightarrow> l \<le> x | None \<Rightarrow> low = PNone)"

definition py_ge_num :: "pyval \<Rightarrow> real \<Rightarrow> bool" where
  "py_ge_num low x = (case num_of low of Some l \<Rightarrow> l \<ge> x | None \<Rightarrow> low \<noteq> PNone)"

text \<open>\<^verbatim>\<open>value in ranges\<close> for a number: equality with a member, numbers compared by value.\<close>

definition py_num_in :: "real \<Rightarrow> pyval list \<Rightarrow> bool" where
  "py_num_in x ranges = list_ex (\<lambda>r. num_of r = Some x) ranges"

text \<open>
  One entry of \<^verbatim>\<open>_parameters\<close>: the properties \<^verbatim>\<open>type\<close>, \<^verbatim>\<open>default\<close>, \<^verbatim>\<open>range\<close> and
  \<^verbatim>\<open>extra_check\<close>, each of which may be absent.  A type that is not given as a list or
  tuple is the list of that one type.  An extra check that raises counts as \<open>False\<close>:
  both end in \<^verbatim>\<open>ValueError\<close>.  No entry of this source has a \<^verbatim>\<open>condition-list\<close>, so
  \<^verbatim>\<open>check_conditional_parameters\<close> finds nothing to check and returns \<^verbatim>\<open>True\<close>.
\<close>

record pspec =
  ptype :: "pytype list option"
  pdefault :: "pyval option"
  prange :: "pyval list option"
  extra_check :: "(pyval \<Rightarrow> bool) option"

type_synonym pydict = "(string \<times> pyval) list"

text \<open>
  A solver instance: the class's \<^verbatim>\<open>_required_parameters\<close>, the instance's copy
  \<^verbatim>\<open>self._parameters\<close> and the instance dictionary \<^verbatim>\<open>self.__dict__\<close> (without
  \<^verbatim>\<open>_parameters\<close> itself), as association lists with distinct keys.
\<close>

record solver =
  required_parameters :: "string list"
  parameters :: "(string \<times> pspec) list"
  dict :: pydict

text \<open>
  The attributes every instance finds in its class: the methods and class variables of
  \<^verbatim>\<open>Solver\<close>.  An instance has no attribute \<^verbatim>\<open>__name__\<close>; only the class object has.
\<close>

definition Solver_class_attributes :: "string list" where
  "Solver_class_attributes =
     [''_required_parameters'', ''_optional_parameters'', ''__init__'', ''__doc__'',
      ''__module__'', ''compile_string_functions'', ''adjust_parameters'', ''initialize'',
      ''set'', ''check_input_types'', ''check_input_range'', ''check_extra'', ''get'',
      ''get_parameter_info'', ''_print_method'', ''__repr__'', ''__str__'',
      ''set_initial_condition'', ''solve'', ''advance'', ''set_internal_parameters'',
      ''constant_time_step'', ''validate_data'', ''switch_to'',
      ''check_conditional_parameters'', ''func_wrapper'']"

definition py_hasattr :: "solver \<Rightarrow> string \<Rightarrow> bool" where
  "py_hasattr self name \<longleftrightarrow>
     map_of (dict self) name \<noteq> None \<or> name \<in> set Solver_class_attributes
       \<or> name = ''__dict__'' \<or> name = ''__class__''"

section \<open>\<^verbatim>\<open>Solver.set\<close> and its checks\<close>

text \<open>
  \<^verbatim>\<open>check_input_types\<close>.  The loop over the declared types sets \<^verbatim>\<open>checked_type\<close>; an
  \<^verbatim>\<open>isinstance\<close> that raises ends the call with the same \<^verbatim>\<open>TypeError\<close> as a value of
  no declared type.
\<close>

fun type_loop :: "pytype list \<Rightarrow> pyval \<Rightarrow> bool \<Rightarrow> bool option" where
  "type_loop [] v checked = Some checked"
| "type_loop (tp # tps) v checked =
     (if tp = Tcallable \<and> py_callable v then type_loop tps v True
      else (case isinstance v tp of
              None \<Rightarrow> None
            | Some b \<Rightarrow> type_loop tps v (if b then True else checked)))"

fun check_input_types :: "(string \<times> pspec) list \<Rightarrow> pydict \<Rightarrow> pyerror + bool" where
  "check_input_types [] kwargs = Inr True"
| "check_input_types ((name, spec) # ps) kwargs =
     (case (map_of kwargs name, ptype spec) of
        (Some v, Some types) \<Rightarrow>
          (if type_loop types v False = Some True then check_input_types ps kwargs
           else Inl TypeError)
      | _ \<Rightarrow> check_input_types ps kwargs)"

text \<open>
  \<^verbatim>\<open>check_input_range\<close>.  Only a value that is an instance of \<^verbatim>\<open>float\<close>, \<^verbatim>\<open>int\<close> or
  \<^verbatim>\<open>complex\<close> is looked at; a range of two entries is taken as an interval.
\<close>

definition range_ok :: "pyval list \<Rightarrow> pyval \<Rightarrow> bool" where
  "range_ok ranges v =
     (case num_of v of
        Some x \<Rightarrow>
          (if length ranges = 2 then
             (let low = ranges ! 0; high = ranges ! 1
              in (py_le_num low x \<and> py_ge_num high x) \<or> (py_ge_num low x \<and> py_le_num high x))
           else py_num_in x ranges)
      | None \<Rightarrow> True)"

fun check_input_range :: "(string \<times> pspec) list \<Rightarrow> pydict \<Rightarrow> pyerror + bool" where
  "check_input_range [] kwargs = Inr True"
| "check_input_range ((name, spec) # ps) kwargs =
     (case (map_of kwargs name, prange spec) of
        (Some v, Some ranges) \<Rightarrow>
          (if range_ok ranges v then check_input_range ps kwargs else Inl ValueError)
      | _ \<Rightarrow> check_input_range ps kwargs)"

fun check_extra :: "(string \<times> pspec) list \<Rightarrow> pydict \<Rightarrow> pyerror + bool" where
  "check_extra [] kwargs = Inr True"
| "check_extra ((name, spec) # ps) kwargs =
     (case (map_of kwargs name, extra_check spec) of
        (Some v, Some check_funcs) \<Rightarrow>
          (if check_funcs v then check_extra ps kwargs else Inl ValueError)
      | _ \<Rightarrow> check_extra ps kwargs)"

text \<open>
  The names whose registry type is \<^verbatim>\<open>callable\<close>.  \<^verbatim>\<open>compile_string_functions\<close> hands
  the string values given for them to f2py, modelled by the parameter \<open>f2py\<close>, which
  returns the compiled functions or fails; with no such string nothing is compiled.
\<close>

definition callable_parameters :: "string list" where
  "callable_parameters =
     [''f'', ''jac'', ''g'', ''spcrad'', ''jac_banded'', ''jac_column'', ''res'',
      ''jac_lsodi'', ''jac_banded_lsodi'', ''adda_lsodi'', ''adda_banded_lsodi'',
      ''jac_lsodis'', ''adda_lsodis'', ''jac_lsoibt'', ''adda_lsoibt'', ''f_f77'', ''g_f77'',
      ''jac_f77'', ''jac_banded_f77'', ''jac_column_f77'', ''jac_lsodi_f77'',
      ''jac_banded_lsodi_f77'', ''adda_lsodi_f77'', ''adda_banded_lsodi_f77'', ''res_f77'',
      ''spcrad_f77'', ''myadvance'']"

definition str_funcs :: "pydict \<Rightarrow> pydict" where
  "str_funcs kwargs =
     filter (\<lambda>(func, v). (case v of PStr _ \<Rightarrow> True | _ \<Rightarrow> False)
                          \<and> func \<in> set callable_parameters) kwargs"

definition compile_string_functions ::
  "(pydict \<Rightarrow> pydict option) \<Rightarrow> pydict \<Rightarrow> pyerror + pydict"
where
  "compile_string_functions f2py kwargs =
     (if str_funcs kwargs = [] then Inr kwargs
      else (case f2py (str_funcs kwargs) of
              None \<Rightarrow> Inl ValueError
            | Some compiled \<Rightarrow>
                Inr (map (\<lambda>(func, v). (func, (case map_of compiled func of
                                                  Some c \<Rightarrow> c | None \<Rightarrow> v))) kwargs)))"

text \<open>
  The loop over \<^verbatim>\<open>kwargs_copy\<close> in \<^verbatim>\<open>set\<close>: a name that is not legal is an error in
  strict mode and dropped otherwise; a legal name given as \<^verbatim>\<open>None\<close> is dropped from
  \<^verbatim>\<open>kwargs\<close> and its attribute is deleted from the instance at once.  The instance
  dictionary is returned also when the loop raises.
\<close>

fun name_loop ::
  "bool \<Rightarrow> (string \<times> pspec) list \<Rightarrow> pydict \<Rightarrow> pydict \<Rightarrow> solver \<Rightarrow> (pyerror + pydict) \<times> solver"
where
  "name_loop strict params [] kwargs self = (Inr kwargs, self)"
| "name_loop strict params ((name, v) # rest) kwargs self =
     (if map_of params name = None then
        (if strict then (Inl ValueError, self)
         else name_loop strict params rest (AList.delete name kwargs) self)
      else if v = PNone then
        name_loop strict params rest (AList.delete name kwargs)
          (if py_hasattr self name then self\<lparr>dict := AList.delete name (dict self)\<rparr> else self)
      else name_loop strict params rest kwargs self)"

fun setattr_all :: "pydict \<Rightarrow> pydict \<Rightarrow> pydict" where
  "setattr_all [] d = d"
| "setattr_all ((name, v) # rest) d = setattr_all rest (AList.update name v d)"

text \<open>
  \<^verbatim>\<open>set\<close> returns the exception raised, if any, together with the instance as the call
  leaves it.
\<close>

definition set_parameters ::
  "(pydict \<Rightarrow> pydict option) \<Rightarrow> solver \<Rightarrow> bool \<Rightarrow> pydict \<Rightarrow> pyerror option \<times> solver"
where
  "set_parameters f2py self strict kwargs0 =
     (case compile_string_functions f2py kwargs0 of
        Inl e \<Rightarrow> (Some e, self)
      | Inr kwargs1 \<Rightarrow>
          (case name_loop strict (parameters self) kwargs1 kwargs1 self of
             (Inl e, self') \<Rightarrow> (Some e, self')
           | (Inr kwargs, self') \<Rightarrow>
               (case check_input_types (parameters self') kwargs of
                  Inl e \<Rightarrow> (Some e, self')
                | Inr _ \<Rightarrow>
                    (case check_input_range (parameters self') kwargs of
                       Inl e \<Rightarrow> (Some e, self')
                     | Inr _ \<Rightarrow>
                         (case check_extra (parameters self') kwargs of
                            Inl e \<Rightarrow> (Some e, self')
                          | Inr _ \<Rightarrow>
                              (None, self'\<lparr>dict := setattr_all kwargs (dict self')\<rparr>))))))"

text \<open>The configuration of an instance: which attributes are assigned, and their values.\<close>

definition config :: "solver \<Rightarrow> string \<Rightarrow> pyval option" where
  "config self = map_of (dict self)"

section \<open>The registry and the constructor\<close>

definition spec_of :: "pytype list \<Rightarrow> pyval option \<Rightarrow> pyval list option \<Rightarrow> pspec" where
  "spec_of types dflt rng =
     \<lparr>ptype = Some types, pdefault = dflt, prange = rng, extra_check = None\<rparr>"

text \<open>
  The entries of the module's \<^verbatim>\<open>_parameters\<close> that the classes \<^verbatim>\<open>Solver\<close>,
  \<^verbatim>\<open>SolverImplicit\<close>, \<^verbatim>\<open>ThetaRule\<close> and \<^verbatim>\<open>Adaptive\<close> list as required or optional.
\<close>

definition registry :: "(string \<times> pspec) list" where
  "registry =
     [(''f'', spec_of [Tcallable] None None),
      (''f_args'', spec_of [Ttuple, Tlist, Tndarray] (Some (PTuple [])) None),
      (''f_kwargs'', spec_of [Tdict] (Some (PDict [])) None),
      (''complex_valued'', spec_of [Tbool] (Some (PBool False)) None),
      (''jac'', spec_of [Tcallable] (Some PNone) None),
      (''jac_args'', spec_of [Ttuple, Tlist] (Some (PTuple [])) None),
      (''jac_kwargs'', spec_of [Tdict] (Some (PDict [])) None),
      (''h_in_fd_jac'', spec_of [Tfloat] (Some (PFloat (1 / 10000))) None),
      (''nonlinear_solver'', spec_of [Tstr] (Some (PStr ''Picard''))
                               (Some [PStr ''Newton'', PStr ''Picard''])),
      (''eps_iter'', spec_of [Tfloat] (Some (PFloat (1 / 10000))) None),
      (''max_iter'', spec_of [Tint] (Some (PInt 25)) None),
      (''theta'', spec_of [Tint, Tfloat] (Some (PFloat (1 / 2))) (Some [PInt 0, PInt 1])),
      (''atol'', spec_of [Tfloat, Tlist, Ttuple, Tndarray] (Some (PFloat (1 / 10 ^ 8))) None),
      (''rtol'', spec_of [Tlist, Ttuple, Tndarray, Tfloat] (Some (PFloat (1 / 10 ^ 6))) None),
      (''min_step'', spec_of [Tfloat] None None),
      (''max_step'', spec_of [Tfloat] None None),
      (''first_step'', spec_of [Tfloat] None None),
      (''relaxation'', spec_of [Tfloat] (Some (PFloat 1)) None)]"

definition Solver_optional_parameters :: "string list" where
  "Solver_optional_parameters = [''f_args'', ''f_kwargs'', ''complex_valued'']"

definition SolverImplicit_optional_parameters :: "string list" where
  "SolverImplicit_optional_parameters =
     Solver_optional_parameters @
       [''jac'', ''jac_args'', ''jac_kwargs'', ''h_in_fd_jac'', ''nonlinear_solver'',
        ''max_iter'', ''eps_iter'', ''relaxation'']"

definition ThetaRule_optional_parameters :: "string list" where
  "ThetaRule_optional_parameters = SolverImplicit_optional_parameters @ [''theta'']"


fun set_defaults :: "(string \<times> pspec) list \<Rightarrow> pydict \<Rightarrow> pydict" where
  "set_defaults [] d = d"
| "set_defaults ((name, spec) # ps) d =
     set_defaults ps (case pdefault spec of Some v \<Rightarrow> AList.update name v d | None \<Rightarrow> d)"

text \<open>
  \<^verbatim>\<open>Solver.__init__(f, **kwargs)\<close> for a class with the given required and optional
  names and a callable \<^verbatim>\<open>f\<close>: the registry is filtered, string functions are compiled,
  the defaults become attributes, the keyword arguments that are \<^verbatim>\<open>None\<close> are removed,
  \<^verbatim>\<open>set\<close> is called, and the wrapped \<^verbatim>\<open>f\<close> is stored.
\<close>

definition Solver_init ::
  "(pydict \<Rightarrow> pydict option) \<Rightarrow> string list \<Rightarrow> string list \<Rightarrow> string \<Rightarrow> pydict
     \<Rightarrow> pyerror option \<times> solver"
where
  "Solver_init f2py required optional f kwargs0 =
     (let params = filter (\<lambda>(key, value). key \<in> set optional \<or> key \<in> set required) registry;
          self0 = \<lparr>required_parameters = required, parameters = params, dict = []\<rparr>
      in (case compile_string_functions f2py kwargs0 of
            Inl e \<Rightarrow> (Some e, self0)
          | Inr kwargs \<Rightarrow>
              (let self1 = self0\<lparr>dict := set_defaults params []\<rparr>;
                   kwargs' = filter (\<lambda>(name, v). v \<noteq> PNone) kwargs
               in (case set_parameters f2py self1 False kwargs' of
                     (Some e, self2) \<Rightarrow> (Some e, self2)
                   | (None, self2) \<Rightarrow>
                       (None, self2\<lparr>dict := AList.update ''f'' (PCallable f)
                                (AList.update ''users_f'' (PCallable f) (dict self2))\<rparr>)))))"

text \<open>No Fortran source is given, so f2py is never called.\<close>

definition no_f2py :: "pydict \<Rightarrow> pydict option" where
  "no_f2py funcs = None"

definition ThetaRule_instance :: solver where
  "ThetaRule_instance =
     snd (Solver_init no_f2py [''f''] ThetaRule_optional_parameters ''f'' [])"

definition BackwardEuler_instance :: solver where
  "BackwardEuler_instance =
     snd (Solver_init no_f2py [''f''] SolverImplicit_optional_parameters ''f'' [])"

section \<open>\<^verbatim>\<open>set_initial_condition\<close> and the allocation of \<^verbatim>\<open>u\<close>\<close>





text \<open>
  The end of \<^verbatim>\<open>Solver.set_internal_parameters\<close>: \<^verbatim>\<open>self.u\<close> is an array of zeros with
  one entry per time point, and \<^verbatim>\<open>self.u[0] = self.U0\<close>.  With no time point the
  assignment raises \<^verbatim>\<open>IndexError\<close>.
\<close>

definition allocate_u :: "'v \<Rightarrow> 'v \<Rightarrow> real list \<Rightarrow> pyerror + 'v list" where
  "allocate_u zero U0 t =
     (if t = [] then Inl IndexError else Inr ((replicate (length t) zero)[0 := U0]))"




section \<open>Validation of the time grid\<close>

text \<open>
  \<^verbatim>\<open>self.t = np.asarray(time_points)\<close> is an array of numbers, or of something else.
\<close>

datatype time_points = Numbers "real list" | NotNumbers

text \<open>
  \<^verbatim>\<open>Solver.validate_data\<close>: the numbers test, the comparison of \<^verbatim>\<open>self.t\<close> with
  \<^verbatim>\<open>sorted(self.t, reverse=self.t[0] > self.t[-1])\<close>, and the test that every required
  parameter is an attribute.
\<close>

definition t_sorted :: "real list \<Rightarrow> real list" where
  "t_sorted t = (if hd t > last t then rev (sort t) else sort t)"

definition Solver_validate_data :: "solver \<Rightarrow> time_points \<Rightarrow> pyerror + bool" where
  "Solver_validate_data self tp =
     (case tp of
        NotNumbers \<Rightarrow> Inl TypeError
      | Numbers t \<Rightarrow>
          (if t = [] then Inl IndexError
           else if t \<noteq> t_sorted t then Inl ValueError
           else if list_ex (\<lambda>arg. \<not> py_hasattr self arg) (required_parameters self)
             then Inl ValueError
           else Inr True))"

text \<open>
  \<^verbatim>\<open>constant_time_step\<close>: \<^verbatim>\<open>np.allclose\<close> with its default tolerances
  \<^verbatim>\<open>rtol=1e-5\<close>, \<^verbatim>\<open>atol=1e-8\<close> against \<^verbatim>\<open>np.linspace(t[0], t[-1], len(t))\<close>.
\<close>

definition linspace :: "real \<Rightarrow> real \<Rightarrow> nat \<Rightarrow> real list" where
  "linspace start stop num =
     (if num = 1 then [start]
      else map (\<lambda>i. start + real i * ((stop - start) / real (num - 1))) [0..<num])"

definition allclose :: "real list \<Rightarrow> real list \<Rightarrow> bool" where
  "allclose a b = list_all (\<lambda>(x, y). \<bar>x - y\<bar> \<le> 1 / 10 ^ 8 + 1 / 10 ^ 5 * \<bar>y\<bar>) (zip a b)"

definition constant_time_step :: "real list \<Rightarrow> bool" where
  "constant_time_step t = allclose t (linspace (hd t) (last t) (length t))"

text \<open>
  Attribute access on an instance: the instance dictionary, then the class.  The value of
  a class attribute is not needed here.
\<close>

definition py_getattr :: "solver \<Rightarrow> string \<Rightarrow> pyerror + pyval option" where
  "py_getattr self name =
     (case map_of (dict self) name of
        Some v \<Rightarrow> Inr (Some v)
      | None \<Rightarrow> if py_hasattr self name then Inr None else Inl AttributeError)"

text \<open>
  \<^verbatim>\<open>validate_data\<close> of \<^verbatim>\<open>AdamsBashforth2\<close>, \<^verbatim>\<open>AdamsBashforth3\<close>, \<^verbatim>\<open>AdamsBashforth4\<close>,
  \<^verbatim>\<open>AdamsBashMoulton2\<close> and \<^verbatim>\<open>AdamsBashMoulton3\<close>, the same text in each class.  The
  message is formatted from \<^verbatim>\<open>self.__name__\<close> before it is printed.
\<close>

definition multistep_validate_data :: "solver \<Rightarrow> real list \<Rightarrow> pyerror + bool" where
  "multistep_validate_data self t =
     (if t = [] then Inl IndexError
      else if \<not> constant_time_step t then
        (case py_getattr self ''__name__'' of
           Inl e \<Rightarrow> Inl e
         | Inr _ \<Rightarrow> Inr False)
      else Inr True)"

text \<open>
  An Adams-Bashforth instance: the class adds \<^verbatim>\<open>start_method\<close>, of type \<^verbatim>\<open>str\<close> with
  default \<^verbatim>\<open>'RK2'\<close>, to the optional parameters of \<^verbatim>\<open>Solver\<close>.
\<close>

definition AdamsBashforth2_instance :: solver where
  "AdamsBashforth2_instance =
     (let self = snd (Solver_init no_f2py [''f''] Solver_optional_parameters ''f'' [])
      in self\<lparr>parameters := parameters self @
                  [(''start_method'', spec_of [Tstr] (Some (PStr ''RK2'')) None)],
               dict := AList.update ''start_method'' (PStr ''RK2'') (dict self)\<rparr>)"

section \<open>The time loop of \<^verbatim>\<open>Solver.solve\<close>\<close>

text \<open>
  An \<^verbatim>\<open>advance\<close> method returns the new value; it may raise, and it may change the
  instance.  \<^verbatim>\<open>terminate(u, t, step_no)\<close> is the user's predicate.
\<close>

type_synonym ('v, 'x) advance =
  "('v, 'x) solver_state_scheme \<Rightarrow> pyerror + ('v \<times> ('v, 'x) solver_state_scheme)"

type_synonym 'v terminate = "'v list \<Rightarrow> real list \<Rightarrow> nat \<Rightarrow> bool"

text \<open>One pass: \<^verbatim>\<open>self.n = n; self.u[n+1] = self.advance()\<close>.\<close>

definition store_step ::
  "('v, 'x) advance \<Rightarrow> nat \<Rightarrow> ('v, 'x) solver_state_scheme
     \<Rightarrow> pyerror + ('v, 'x) solver_state_scheme"
where
  "store_step adv n s =
     (case adv (s\<lparr>self_n := n\<rparr>) of
        Inl e \<Rightarrow> Inl e
      | Inr (unew, s') \<Rightarrow>
          if n + 1 < length (self_u s') then Inr (s'\<lparr>self_u := (self_u s')[n + 1 := unew]\<rparr>)
          else Inl IndexError)"

definition truncate_to :: "nat \<Rightarrow> ('v, 'x) solver_state_scheme \<Rightarrow> ('v, 'x) solver_state_scheme" where
  "truncate_to k s = s\<lparr>self_u := take k (self_u s), self_t := take k (self_t s)\<rparr>"

text \<open>The loop \<^verbatim>\<open>for n in range(N)\<close> with its \<^verbatim>\<open>break\<close>, over the list of indices.\<close>

fun time_loop ::
  "('v, 'x) advance \<Rightarrow> 'v terminate \<Rightarrow> nat list \<Rightarrow> ('v, 'x) solver_state_scheme
     \<Rightarrow> pyerror + ('v, 'x) solver_state_scheme"
where
  "time_loop adv terminate [] s = Inr s"
| "time_loop adv terminate (n # ns) s =
     (case store_step adv n s of
        Inl e \<Rightarrow> Inl e
      | Inr s' \<Rightarrow>
          if terminate (self_u s') (self_t s') (n + 1) then Inr (truncate_to (n + 2) s')
          else time_loop adv terminate ns s')"

text \<open>
  \<^verbatim>\<open>solve\<close> for an instance whose initial condition, if set, is \<open>U0\<close>.  The result of
  \<^verbatim>\<open>validate_data\<close> is not used; only its exceptions matter.  The returned pair is
  \<^verbatim>\<open>(self.u, self.t)\<close>.  The field \<open>self_n\<close> starts at 0; the loop assigns it before
  \<^verbatim>\<open>advance\<close> reads it.
\<close>

definition Solver_solve ::
  "('v, 'x) advance \<Rightarrow> 'v terminate \<Rightarrow> (real list \<Rightarrow> pyerror + bool) \<Rightarrow> 'v \<Rightarrow> 'v option \<Rightarrow> 'x
     \<Rightarrow> real list \<Rightarrow> pyerror + ('v list \<times> real list)"
where
  "Solver_solve adv terminate validate_data zero U0 extra t =
     (case U0 of
        None \<Rightarrow> Inl AttributeError
      | Some U \<Rightarrow>
          (case allocate_u zero U t of
             Inl e \<Rightarrow> Inl e
           | Inr u \<Rightarrow>
               (case validate_data t of
                  Inl e \<Rightarrow> Inl e
                | Inr _ \<Rightarrow>
                    (case time_loop adv terminate [0..<length t - 1]
                            \<lparr>self_t = t, self_u = u, self_n = 0, \<dots> = extra\<rparr> of
                       Inl e \<Rightarrow> Inl e
                     | Inr s \<Rightarrow> Inr (self_u s, self_t s)))))"

text \<open>
  The loop without the termination test: the instance after the steps of the given
  indices.
\<close>

fun run_steps ::
  "('v, 'x) advance \<Rightarrow> nat list \<Rightarrow> ('v, 'x) solver_state_scheme
     \<Rightarrow> pyerror + ('v, 'x) solver_state_scheme"
where
  "run_steps adv [] s = Inr s"
| "run_steps adv (n # ns) s =
     (case store_step adv n s of Inl e \<Rightarrow> Inl e | Inr s' \<Rightarrow> run_steps adv ns s')"

text \<open>
  An \<^verbatim>\<open>advance\<close> that, inside the grid, returns a value and leaves \<^verbatim>\<open>self.t\<close>, the
  length of \<^verbatim>\<open>self.u\<close> and the entry \<^verbatim>\<open>self.u[0]\<close> as they are.
\<close>

definition keeps_grid :: "('v, 'x) advance \<Rightarrow> bool" where
  "keeps_grid adv \<longleftrightarrow>
     (\<forall>s. in_grid s \<longrightarrow>
        (\<exists>unew s'. adv s = Inr (unew, s') \<and> self_t s' = self_t s
           \<and> length (self_u s') = length (self_u s) \<and> self_u s' ! 0 = self_u s ! 0))"

section \<open>Explicit single-step schemes\<close>

datatype explicit_scheme = Euler | Leapfrog | LeapfrogFiltered | Heun | RK2 | RK3 | RK4

fun explicit_unew :: "explicit_scheme \<Rightarrow> rhs \<Rightarrow> (real, 'x) solver_state_scheme \<Rightarrow> real" where
  "explicit_unew Euler f s =
     (let u = self_u s; n = self_n s; t = self_t s;
          dt = t ! (n + 1) - t ! n
      in u ! n + dt * f (u ! n) (t ! n))"
| "explicit_unew Leapfrog f s =
     (let u = self_u s; n = self_n s; t = self_t s
      in if n \<ge> 1 then
           (let dt2 = t ! (n + 1) - t ! (n - 1) in u ! (n - 1) + dt2 * f (u ! n) (t ! n))
         else
           (let dt = t ! (n + 1) - t ! n in u ! n + dt * f (u ! n) (t ! n)))"
| "explicit_unew LeapfrogFiltered f s =
     (let u = self_u s; n = self_n s; t = self_t s
      in if n \<ge> 1 then
           (let dt2 = t ! (n + 1) - t ! (n - 1) in u ! (n - 1) + dt2 * f (u ! n) (t ! n))
         else
           (let dt = t ! (n + 1) - t ! n in u ! n + dt * f (u ! n) (t ! n)))"
| "explicit_unew Heun f s =
     (let u = self_u s; n = self_n s; t = self_t s;
          dt = t ! (n + 1) - t ! n;
          u_star = u ! n + dt * f (u ! n) (t ! n)
      in u ! n + 1 / 2 * dt * (f (u ! n) (t ! n) + f u_star (t ! (n + 1))))"
| "explicit_unew RK2 f s =
     (let u = self_u s; n = self_n s; t = self_t s;
          dt = t ! (n + 1) - t ! n;
          K1 = dt * f (u ! n) (t ! n);
          K2 = dt * f (u ! n + 1 / 2 * K1) (t ! n + 1 / 2 * dt)
      in u ! n + K2)"
| "explicit_unew RK3 f s =
     (let u = self_u s; n = self_n s; t = self_t s;
          dt = t ! (n + 1) - t ! n;
          dt2 = dt / 2;
          K1 = dt * f (u ! n) (t ! n);
          K2 = dt * f (u ! n + 1 / 2 * K1) (t ! n + dt2);
          K3 = dt * f (u ! n - K1 + 2 * K2) (t ! n + dt)
      in u ! n + (1 / 6) * (K1 + 4 * K2 + K3))"
| "explicit_unew RK4 f s =
     (let u = self_u s; n = self_n s; t = self_t s;
          dt = t ! (n + 1) - t ! n;
          dt2 = dt / 2;
          K1 = dt * f (u ! n) (t ! n);
          K2 = dt * f (u ! n + 1 / 2 * K1) (t ! n + dt2);
          K3 = dt * f (u ! n + 1 / 2 * K2) (t ! n + dt2);
          K4 = dt * f (u ! n + K3) (t ! n + dt)
      in u ! n + (1 / 6) * (K1 + 2 * K2 + 2 * K3 + K4))"

text \<open>
  \<^verbatim>\<open>LeapfrogFiltered.advance\<close> also overwrites \<^verbatim>\<open>u[n]\<close> for \<^verbatim>\<open>n >= 1\<close>, with
  \<^verbatim>\<open>gamma = 0.6\<close>; the other schemes leave the instance as it is.
\<close>

definition explicit_advance ::
  "explicit_scheme \<Rightarrow> rhs \<Rightarrow> (real, 'x) advance"
where
  "explicit_advance scheme f s =
     (if \<not> in_grid s then Inl IndexError
      else
        (let unew = explicit_unew scheme f s;
             u = self_u s; n = self_n s
         in if scheme = LeapfrogFiltered \<and> n \<ge> 1 then
              Inr (unew, s\<lparr>self_u := u[n := u ! n + 6 / 10 * (u ! (n - 1) - 2 * u ! n + unew)]\<rparr>)
            else Inr (unew, s)))"

text \<open>A terminate function and a grid for a run that stops early.\<close>

definition above_threshold :: "real terminate" where
  "above_threshold u t step_no = (u ! step_no > 3 / 2)"

definition never_terminate :: "'v terminate" where
  "never_terminate u t step_no = False"

definition accept_grid :: "real list \<Rightarrow> pyerror + bool" where
  "accept_grid t = Inr True"

text \<open>
  The instance as \<^verbatim>\<open>solve\<close> has it when the loop starts, and the test whether
  \<^verbatim>\<open>terminate\<close> returns true after step \<open>k\<close> has been computed, when none of the
  steps before has stopped the loop.
\<close>

definition initial_state :: "'v \<Rightarrow> 'v \<Rightarrow> 'x \<Rightarrow> real list \<Rightarrow> ('v, 'x) solver_state_scheme" where
  "initial_state zero U0 extra t =
     \<lparr>self_t = t, self_u = (replicate (length t) zero)[0 := U0], self_n = 0, \<dots> = extra\<rparr>"

definition stops_at ::
  "('v, 'x) advance \<Rightarrow> 'v terminate \<Rightarrow> ('v, 'x) solver_state_scheme \<Rightarrow> nat \<Rightarrow> bool" where
  "stops_at adv terminate s0 k =
     (case run_steps adv [0..<k] s0 of
        Inl e \<Rightarrow> False
      | Inr s \<Rightarrow> terminate (self_u s) (self_t s) k)"

text \<open>A forward Euler instance for \<^verbatim>\<open>u' = 1\<close>, and its \<^verbatim>\<open>validate_data\<close>.\<close>

definition Euler_instance :: solver where
  "Euler_instance = snd (Solver_init no_f2py [''f''] Solver_optional_parameters ''f'' [])"

definition unit_rhs :: rhs where
  "unit_rhs u t = 1"

definition Euler_validate_data :: "real list \<Rightarrow> pyerror + bool" where
  "Euler_validate_data t = Solver_validate_data Euler_instance (Numbers t)"

definition Euler_solve :: "real terminate \<Rightarrow> real \<Rightarrow> real list \<Rightarrow> pyerror + (real list \<times> real list)" where
  "Euler_solve terminate U0 t =
     Solver_solve (explicit_advance Euler unit_rhs) terminate Euler_validate_data 0 (Some U0) () t"

section \<open>The Runge-Kutta-Fehlberg controller, \<^verbatim>\<open>RKFehlberg.advance\<close>\<close>

text \<open>The helper \<^verbatim>\<open>middle(x, y=.1, z=4.)\<close>: the middle one of three numbers.\<close>

definition middle :: "real \<Rightarrow> real \<Rightarrow> real \<Rightarrow> real" where
  "middle x y z = sort [x, y, z] ! 1"

text \<open>The coefficients of the Butcher tableau, \<^verbatim>\<open>c[0]\<close> to \<^verbatim>\<open>c[26]\<close>.\<close>

definition rkf_c :: "real list" where
  "rkf_c =
     [1 / 4, 3 / 8, 3 / 32, 9 / 32, 12 / 13, 1932 / 2197, - 7200 / 2197, 7296 / 2197,
      439 / 216, - 8, 3680 / 513, - 845 / 4104, 1 / 2, - 8 / 27, 2, - 3544 / 2565,
      1859 / 4104, - 11 / 40, 1 / 360, - 128 / 4275, - 2197 / 75240, 1 / 50, 2 / 55,
      25 / 216, 1408 / 2565, 2197 / 4104, - 1 / 5]"

text \<open>
  The parameters of an adaptive solver for a scalar ODE with scalar tolerances.  The
  three step sizes need not be attributes of the instance.
\<close>

record adaptive_parameters =
  rtol :: real
  atol :: real
  first_step :: "real option"
  min_step :: "real option"
  max_step :: "real option"

text \<open>
  The local variables of \<^verbatim>\<open>advance\<close> that the \<^verbatim>\<open>while\<close> loop changes.  \<^verbatim>\<open>u_new\<close> is
  unbound until the body has run once.
\<close>

record rkf_work =
  w_uwork :: "real list"
  w_twork :: "real list"
  w_u :: real
  w_t :: real
  w_h :: real
  w_u_new :: "real option"

text \<open>The six stages from \<^verbatim>\<open>(u, t)\<close> with step \<^verbatim>\<open>h\<close>.\<close>

definition rkf_stages :: "rhs \<Rightarrow> real \<Rightarrow> real \<Rightarrow> real \<Rightarrow> real list" where
  "rkf_stages f u t h =
     (let c = rkf_c;
          k1 = h * f u t;
          k2 = h * f (u + k1 * c ! 0) (t + h * c ! 0);
          k3 = h * f (u + k1 * c ! 2 + k2 * c ! 3) (t + h * c ! 1);
          k4 = h * f (u + k1 * c ! 5 + k2 * c ! 6 + k3 * c ! 7) (t + h * c ! 4);
          k5 = h * f (u + k1 * c ! 8 + k2 * c ! 9 + k3 * c ! 10 + k4 * c ! 11) (t + h);
          k6 = h * f (u + k1 * c ! 13 + k2 * c ! 14 + k3 * c ! 15 + k4 * c ! 16 + k5 * c ! 17)
                     (t + h * c ! 12)
      in [k1, k2, k3, k4, k5, k6])"

definition rkf_u_new :: "rhs \<Rightarrow> real \<Rightarrow> real \<Rightarrow> real \<Rightarrow> real" where
  "rkf_u_new f u t h =
     (let c = rkf_c; k = rkf_stages f u t h
      in u + k ! 0 * c ! 23 + k ! 2 * c ! 24 + k ! 3 * c ! 25 + k ! 4 * c ! 26)"

definition rkf_error :: "rhs \<Rightarrow> real \<Rightarrow> real \<Rightarrow> real \<Rightarrow> real" where
  "rkf_error f u t h =
     (let c = rkf_c; k = rkf_stages f u t h
      in \<bar>k ! 0 * c ! 18 + k ! 2 * c ! 19 + k ! 3 * c ! 20 + k ! 4 * c ! 21 + k ! 5 * c ! 22\<bar>)"

definition rkf_tol :: "adaptive_parameters \<Rightarrow> real \<Rightarrow> real" where
  "rkf_tol p u_new = rtol p * \<bar>u_new\<bar> + atol p"

text \<open>\<^verbatim>\<open>1e-16 if error == 0. else error\<close>.\<close>

definition zero_floor :: "real \<Rightarrow> real" where
  "zero_floor error = (if error = 0 then 1 / 10 ^ 16 else error)"

text \<open>
  The factor for the next step size: \<^verbatim>\<open>s = (tol/(2*error))**0.25\<close> with \<^verbatim>\<open>error\<close>
  after the replacement of zero, then \<^verbatim>\<open>middle(s)\<close>.  For a system the factor is the
  smallest of the components' factors.
\<close>

definition step_factor :: "real \<Rightarrow> real \<Rightarrow> real" where
  "step_factor tol error = middle ((tol / (2 * zero_floor error)) powr (1 / 4)) (1 / 10) 4"

definition step_factor_system :: "real list \<Rightarrow> real list \<Rightarrow> real" where
  "step_factor_system tol error =
     Min (set (map (\<lambda>(tl, e). middle ((tl / (2 * zero_floor e)) powr (1 / 4)) (1 / 10) 4)
                 (zip tol error)))"


text \<open>\<^verbatim>\<open>h = middle(h*s, y=min_step, z=max_step)\<close>, then \<^verbatim>\<open>h = min(h, t_next - twork[-1])\<close>.\<close>

definition next_h :: "real \<Rightarrow> real \<Rightarrow> real \<Rightarrow> real \<Rightarrow> real \<Rightarrow> real" where
  "next_h h s mn mx remaining = min (middle (h * s) mn mx) remaining"

text \<open>
  The body of the \<^verbatim>\<open>while\<close> loop for \<^verbatim>\<open>neq == 1\<close>.  With a tolerance of zero the
  quotient \<^verbatim>\<open>error/tol\<close> is inf or nan and the test \<^verbatim>\<open>rms_norm <= 1.\<close> is false; a
  negative tolerance makes the power nan, which is outside the model.
\<close>

definition rkf_body ::
  "rhs \<Rightarrow> adaptive_parameters \<Rightarrow> real \<Rightarrow> real \<Rightarrow> real \<Rightarrow> rkf_work \<Rightarrow> pyerror + rkf_work"
where
  "rkf_body f p mn mx t_next w =
     (let u = last (w_uwork w); t = last (w_twork w); h = w_h w;
          u_new = rkf_u_new f u t h;
          error = rkf_error f u t h;
          tol = rkf_tol p u_new;
          rms = error / tol;
          rms_norm = sqrt (rms * rms / 1);
          accepted = ((tol \<noteq> 0 \<and> rms_norm \<le> 1) \<or> h \<le> mn);
          uwork = (if accepted then w_uwork w @ [u_new] else w_uwork w);
          twork = (if accepted then w_twork w @ [t + h] else w_twork w)
      in if tol < 0 then Inl NonFinite
         else Inr \<lparr>w_uwork = uwork, w_twork = twork, w_u = u, w_t = t,
                   w_h = next_h h (step_factor tol error) mn mx (t_next - last twork),
                   w_u_new = Some u_new\<rparr>)"

text \<open>
  The loop \<^verbatim>\<open>while abs(t - t_n) < abs(t_next - t_n)\<close>, which need not end, with fuel:
  \<open>None\<close> when the fuel runs out.
\<close>

fun rkf_loop ::
  "nat \<Rightarrow> rhs \<Rightarrow> adaptive_parameters \<Rightarrow> real \<Rightarrow> real \<Rightarrow> real \<Rightarrow> real \<Rightarrow> rkf_work
     \<Rightarrow> (pyerror + rkf_work) option"
where
  "rkf_loop 0 f p mn mx t_n t_next w = None"
| "rkf_loop (Suc fuel) f p mn mx t_n t_next w =
     (if \<bar>w_t w - t_n\<bar> < \<bar>t_next - t_n\<bar> then
        (case rkf_body f p mn mx t_next w of
           Inl e \<Rightarrow> Some (Inl e)
         | Inr w' \<Rightarrow> rkf_loop fuel f p mn mx t_n t_next w')
      else Some (Inr w))"

text \<open>
  The step sizes that \<^verbatim>\<open>advance\<close> starts from:
  \<^verbatim>\<open>getattr(self, 'min_step', dt/1000.)\<close>, \<^verbatim>\<open>getattr(self, 'max_step', dt)\<close> and
  \<^verbatim>\<open>getattr(self, 'first_step', dt)\<close> with \<^verbatim>\<open>dt = t_next - t_n\<close>.
\<close>

definition rkf_min_step :: "adaptive_parameters \<Rightarrow> real \<Rightarrow> real" where
  "rkf_min_step p dt = (case min_step p of Some m \<Rightarrow> m | None \<Rightarrow> dt / 1000)"

definition rkf_max_step :: "adaptive_parameters \<Rightarrow> real \<Rightarrow> real" where
  "rkf_max_step p dt = (case max_step p of Some m \<Rightarrow> m | None \<Rightarrow> dt)"

definition rkf_first_step :: "adaptive_parameters \<Rightarrow> real \<Rightarrow> real" where
  "rkf_first_step p dt = (case first_step p of Some m \<Rightarrow> m | None \<Rightarrow> dt)"

definition rkf_start :: "adaptive_parameters \<Rightarrow> real solver_state \<Rightarrow> rkf_work" where
  "rkf_start p s =
     (let n = self_n s; u_n = self_u s ! n; t_n = self_t s ! n; t_next = self_t s ! (n + 1);
          dt = t_next - t_n
      in \<lparr>w_uwork = [u_n], w_twork = [t_n], w_u = u_n, w_t = t_n,
          w_h = rkf_first_step p dt, w_u_new = None\<rparr>)"

definition RKFehlberg_advance ::
  "nat \<Rightarrow> rhs \<Rightarrow> adaptive_parameters \<Rightarrow> real solver_state \<Rightarrow> (pyerror + real) option"
where
  "RKFehlberg_advance fuel f p s =
     (if \<not> in_grid s then Some (Inl IndexError)
      else
        (let n = self_n s; t_n = self_t s ! n; t_next = self_t s ! (n + 1);
             dt = t_next - t_n
         in (case rkf_loop fuel f p (rkf_min_step p dt) (rkf_max_step p dt) t_n t_next
                    (rkf_start p s) of
               None \<Rightarrow> None
             | Some (Inl e) \<Rightarrow> Some (Inl e)
             | Some (Inr w) \<Rightarrow>
                 (case w_u_new w of
                    None \<Rightarrow> Some (Inl UnboundLocalError)
                  | Some u_new \<Rightarrow> Some (Inr u_new)))))"












section \<open>Properties of the implicit schemes\<close>

lemma Newton_residual_other_schemes:
  "scheme \<noteq> MidpointImplicit \<Longrightarrow>
     fst (Newton_system scheme f jac s ukp1) = spec_residual scheme f s ukp1"
  by (cases scheme) (simp_all add: spec_residual_def Let_def)

lemma midpoint_residual_value:
  "fst (Newton_system MidpointImplicit f jac s ukp1)
     = spec_midpoint_residual f s ukp1
       + 2 * (self_t s ! (self_n s + 1) - self_t s ! self_n s)
           * f ((ukp1 + self_u s ! self_n s) / 2)
               (self_t s ! self_n s + (self_t s ! (self_n s + 1) - self_t s ! self_n s) / 2)"
  by (simp add: spec_midpoint_residual_def Let_def)

text \<open>
  Claim C6.  \<^verbatim>\<open>MidpointImplicit.Newton_system\<close> computes
  \<^verbatim>\<open>F = ukp1 - u[n] + dt*f(...)\<close>: the parentheses around the scheme's right-hand side,
  present in the three sibling schemes, are missing, so \<^verbatim>\<open>dt*f(...)\<close> is added instead of
  subtracted.  For \<^verbatim>\<open>u' = 1\<close>, \<^verbatim>\<open>u[0] = 0\<close>, \<^verbatim>\<open>t = [0, 1]\<close> and the trial guess 0 the code
  returns the residual 1, where the residual of the implicit midpoint scheme is -1.
\<close>

theorem C6_midpoint_residual_sign:
  "fst (Newton_system MidpointImplicit (\<lambda>u t. 1) (\<lambda>u t. 0) midpoint_state 0) = 1
   \<and> spec_midpoint_residual (\<lambda>u t. 1) midpoint_state 0 = - 1
   \<and> spec_residual MidpointImplicit (\<lambda>u t. 1) midpoint_state 0 = - 1"
  by (simp add: midpoint_state_def spec_midpoint_residual_def spec_residual_def)

section \<open>Properties of the inner nonlinear iteration\<close>

lemma undamped_loop_agrees:
  "relaxation p = 1 \<Longrightarrow>
     SolverImplicit_loop scheme f jac p s i error u_new
       = spec_SolverImplicit_loop scheme f jac p s i error u_new"
proof (induction scheme f jac p s i error u_new rule: SolverImplicit_loop.induct)
  case (1 scheme f jac p s i error u_new)
  show ?case
  proof (cases "i \<le> max_iter p \<and> error > eps_iter p")
    case False
    then show ?thesis
      by (subst SolverImplicit_loop.simps, subst spec_SolverImplicit_loop.simps) auto
  next
    case True
    show ?thesis
    proof (cases "iterate_unew scheme f jac p s u_new")
      case (Inl e)
      with True show ?thesis
        by (subst SolverImplicit_loop.simps, subst spec_SolverImplicit_loop.simps) simp
    next
      case (Inr unew)
      have blend: "relaxation p * unew + (1 - relaxation p) * (self_u s ! self_n s)
                   = spec_relaxed (relaxation p) unew u_new"
        using "1.prems" by (simp add: spec_relaxed_def)
      have "SolverImplicit_loop scheme f jac p s (i + 1) \<bar>unew - u_new\<bar>
              (relaxation p * unew + (1 - relaxation p) * (self_u s ! self_n s))
            = spec_SolverImplicit_loop scheme f jac p s (i + 1) \<bar>unew - u_new\<bar>
              (relaxation p * unew + (1 - relaxation p) * (self_u s ! self_n s))"
        by (rule "1.IH" [OF True Inr refl refl refl "1.prems"])
      with True Inr blend show ?thesis
        by (subst SolverImplicit_loop.simps, subst spec_SolverImplicit_loop.simps)
           (simp add: Let_def)
    qed
  qed
qed

text \<open>
  Claim C5.  \<^verbatim>\<open>SolverImplicit.advance\<close> blends the just-computed value with \<^verbatim>\<open>un\<close>, the
  solution at the previous time level, not with the guess held before the iteration.
  Backward Euler for \<^verbatim>\<open>u' = -u\<close>, \<^verbatim>\<open>u[0] = 1\<close>, \<^verbatim>\<open>t = [0, 1]\<close>, Picard iteration,
  \<^verbatim>\<open>max_iter = 1\<close> and \<^verbatim>\<open>relaxation = 0.5\<close>: the forward-Euler predictor is 0, the
  Picard update of it is 1, and the code returns \<^verbatim>\<open>0.5*1 + 0.5*u[0] = 1\<close>, where the
  blend with the previous guess is \<^verbatim>\<open>0.5*1 + 0.5*0 = 0.5\<close>.
\<close>

theorem C5_relaxation_blends_with_un:
  "SolverImplicit_advance BackwardEuler (\<lambda>u t. - u) (\<lambda>u t. - 1) relax_parameters relax_state
     = Inr 1
   \<and> spec_SolverImplicit_loop BackwardEuler (\<lambda>u t. - u) (\<lambda>u t. - 1) relax_parameters relax_state
       1 (10 ^ 30) 0 = Inr (1 / 2)
   \<and> spec_relaxed (1 / 2) 1 0 = 1 / 2"
  by (simp add: SolverImplicit_advance_def in_grid_def relax_state_def relax_parameters_def
        iterate_unew_def spec_relaxed_def SolverImplicit_loop.simps
        spec_SolverImplicit_loop.simps)

section \<open>Properties of the time loop\<close>

lemma store_step_keeps:
  assumes "keeps_grid adv" "length (self_u s) = length (self_t s)" "n + 1 < length (self_t s)"
  shows "\<exists>s'. store_step adv n s = Inr s' \<and> self_t s' = self_t s
           \<and> length (self_u s') = length (self_u s) \<and> self_u s' ! 0 = self_u s ! 0"
proof -
  have "in_grid (s\<lparr>self_n := n\<rparr>)" using assms(2,3) by (simp add: in_grid_def)
  with assms(1) obtain unew s' where
    a: "adv (s\<lparr>self_n := n\<rparr>) = Inr (unew, s')" "self_t s' = self_t s"
       "length (self_u s') = length (self_u s)" "self_u s' ! 0 = self_u s ! 0"
    unfolding keeps_grid_def by fastforce
  with assms(2,3) show ?thesis by (simp add: store_step_def)
qed

lemma run_steps_keeps:
  assumes "keeps_grid adv"
  shows "length (self_u s) = length (self_t s) \<Longrightarrow> \<forall>n \<in> set ns. n + 1 < length (self_t s) \<Longrightarrow>
         \<exists>s'. run_steps adv ns s = Inr s' \<and> self_t s' = self_t s
           \<and> length (self_u s') = length (self_u s) \<and> self_u s' ! 0 = self_u s ! 0"
proof (induction ns arbitrary: s)
  case Nil
  then show ?case by simp
next
  case (Cons n ns)
  from store_step_keeps [OF assms Cons.prems(1)] Cons.prems(2)
  obtain s1 where s1: "store_step adv n s = Inr s1" "self_t s1 = self_t s"
     "length (self_u s1) = length (self_u s)" "self_u s1 ! 0 = self_u s ! 0"
    by fastforce
  from Cons.IH [of s1] s1 Cons.prems
  obtain s' where "run_steps adv ns s1 = Inr s'" "self_t s' = self_t s1"
     "length (self_u s') = length (self_u s1)" "self_u s' ! 0 = self_u s1 ! 0"
    by fastforce
  with s1 show ?case by simp
qed

lemma run_steps_append:
  "run_steps adv (xs @ ys) s =
     (case run_steps adv xs s of Inl e \<Rightarrow> Inl e | Inr s' \<Rightarrow> run_steps adv ys s')"
  by (induction xs arbitrary: s) (auto split: sum.splits)

lemma time_loop_prefix:
  "run_steps adv pre s = Inr s1 \<Longrightarrow>
   (\<forall>k < length pre. \<forall>sk. run_steps adv (take (Suc k) pre) s = Inr sk \<longrightarrow>
        \<not> terminate (self_u sk) (self_t sk) (pre ! k + 1)) \<Longrightarrow>
   time_loop adv terminate (pre @ post) s = time_loop adv terminate post s1"
proof (induction pre arbitrary: s)
  case Nil
  then show ?case by simp
next
  case (Cons n ns)
  from Cons.prems(1) obtain s' where s': "store_step adv n s = Inr s'" "run_steps adv ns s' = Inr s1"
    by (auto split: sum.splits)
  from Cons.prems(2) [rule_format, of 0 s'] s'
  have nt: "\<not> terminate (self_u s') (self_t s') (n + 1)" by simp
  have "\<forall>k < length ns. \<forall>sk. run_steps adv (take (Suc k) ns) s' = Inr sk \<longrightarrow>
        \<not> terminate (self_u sk) (self_t sk) (ns ! k + 1)"
  proof (intro allI impI)
    fix k sk assume k: "k < length ns" and r: "run_steps adv (take (Suc k) ns) s' = Inr sk"
    from Cons.prems(2) [rule_format, of "Suc k" sk] k r s'
    show "\<not> terminate (self_u sk) (self_t sk) (ns ! k + 1)" by simp
  qed
  from Cons.IH [OF s'(2) this] s' nt show ?case by simp
qed

lemma explicit_advance_keeps_grid: "keeps_grid (explicit_advance scheme f)"
  by (auto simp: keeps_grid_def explicit_advance_def Let_def)

text \<open>
  Claim C2.  For a grid of \<open>N + 1\<close> time points that passes \<^verbatim>\<open>validate_data\<close>, and an
  \<^verbatim>\<open>advance\<close> that returns a value and leaves \<^verbatim>\<open>t\<close>, the length of \<^verbatim>\<open>u\<close> and \<^verbatim>\<open>u[0]\<close>
  alone (as the explicit schemes do): if \<^verbatim>\<open>terminate\<close> first returns true after step
  \<open>n + 1\<close> has been computed, \<^verbatim>\<open>solve\<close> returns the first \<open>n + 2\<close> entries of \<^verbatim>\<open>u\<close> as it
  is after exactly \<open>n + 1\<close> steps and the first \<open>n + 2\<close> time points; if it never returns
  true, \<^verbatim>\<open>solve\<close> returns \<^verbatim>\<open>u\<close> after \<open>N\<close> steps and the whole grid, \<open>N + 1\<close> entries
  each.  In both cases \<^verbatim>\<open>u[0]\<close> is the initial condition.
\<close>

theorem C2_solve_lengths_and_early_exit:
  assumes adv: "keeps_grid adv"
      and valid: "validate_data t = Inr ok"
      and len: "length t = N + 1"
  shows "(n < N \<and> stops_at adv terminate (initial_state zero U0 extra t) (n + 1)
            \<and> list_all (\<lambda>j. \<not> stops_at adv terminate (initial_state zero U0 extra t) (j + 1))
                 [0..<n] \<longrightarrow>
          (\<exists>u' t' s. Solver_solve adv terminate validate_data zero (Some U0) extra t = Inr (u', t')
             \<and> length u' = n + 2 \<and> length t' = n + 2 \<and> u' ! 0 = U0
             \<and> run_steps adv [0..<n + 1] (initial_state zero U0 extra t) = Inr s
             \<and> u' = take (n + 2) (self_u s) \<and> t' = take (n + 2) t))
       \<and> (list_all (\<lambda>j. \<not> stops_at adv terminate (initial_state zero U0 extra t) (j + 1))
            [0..<N] \<longrightarrow>
          (\<exists>u' s. Solver_solve adv terminate validate_data zero (Some U0) extra t = Inr (u', t)
             \<and> length u' = N + 1 \<and> u' ! 0 = U0
             \<and> run_steps adv [0..<N] (initial_state zero U0 extra t) = Inr s
             \<and> u' = self_u s))"
proof -
  let ?s0 = "initial_state zero U0 extra t"
  have s0: "length (self_u ?s0) = length (self_t ?s0)" "self_t ?s0 = t" "self_u ?s0 ! 0 = U0"
    using len by (simp_all add: initial_state_def)
  have tne: "t \<noteq> []" using len by auto
  have solve: "Solver_solve adv terminate validate_data zero (Some U0) extra t =
        (case time_loop adv terminate [0..<N] ?s0 of
           Inl e \<Rightarrow> Inl e | Inr s \<Rightarrow> Inr (self_u s, self_t s))"
    using valid len tne by (simp add: Solver_solve_def allocate_u_def initial_state_def)
  have run: "\<exists>s'. run_steps adv [0..<k] ?s0 = Inr s' \<and> self_t s' = t
           \<and> length (self_u s') = N + 1 \<and> self_u s' ! 0 = U0" if "k \<le> N" for k
    using run_steps_keeps [OF adv s0(1), of "[0..<k]"] that s0 len
    by (auto simp: initial_state_def)
  have nostop: "\<forall>k < length [0..<m]. \<forall>sk. run_steps adv (take (Suc k) [0..<m]) ?s0 = Inr sk \<longrightarrow>
        \<not> terminate (self_u sk) (self_t sk) ([0..<m] ! k + 1)"
    if "list_all (\<lambda>j. \<not> stops_at adv terminate ?s0 (j + 1)) [0..<m]" for m
  proof (intro allI impI)
    fix k sk assume k: "k < length [0..<m]"
      and r: "run_steps adv (take (Suc k) [0..<m]) ?s0 = Inr sk"
    from k have km: "k < m" by simp
    with that have "\<not> stops_at adv terminate ?s0 (k + 1)" by (simp add: list_all_iff)
    moreover from r km have "run_steps adv [0..<Suc k] ?s0 = Inr sk" by (simp add: take_upt)
    ultimately show "\<not> terminate (self_u sk) (self_t sk) ([0..<m] ! k + 1)"
      using km by (simp add: stops_at_def)
  qed
  have early: "\<exists>u' t' s. Solver_solve adv terminate validate_data zero (Some U0) extra t = Inr (u', t')
             \<and> length u' = n + 2 \<and> length t' = n + 2 \<and> u' ! 0 = U0
             \<and> run_steps adv [0..<n + 1] ?s0 = Inr s
             \<and> u' = take (n + 2) (self_u s) \<and> t' = take (n + 2) t"
    if n: "n < N" and st: "stops_at adv terminate ?s0 (n + 1)"
      and ns: "list_all (\<lambda>j. \<not> stops_at adv terminate ?s0 (j + 1)) [0..<n]"
  proof -
    from run [of n] n obtain s1 where s1: "run_steps adv [0..<n] ?s0 = Inr s1" by auto
    from run [of "n + 1"] n obtain s2 where s2: "run_steps adv [0..<n + 1] ?s0 = Inr s2"
      "self_t s2 = t" "length (self_u s2) = N + 1" "self_u s2 ! 0 = U0" by auto
    from s1 s2(1) have step: "store_step adv n s1 = Inr s2"
      by (simp add: run_steps_append split: sum.splits)
    from st s2(1) have stop: "terminate (self_u s2) (self_t s2) (n + 1)"
      by (simp add: stops_at_def)
    have spl: "[0..<N] = [0..<n] @ n # [Suc n..<N]"
      using n upt_add_eq_append [of 0 n "N - n"] upt_conv_Cons [of n N] by simp
    have "time_loop adv terminate [0..<N] ?s0 = time_loop adv terminate (n # [Suc n..<N]) s1"
      unfolding spl by (rule time_loop_prefix [OF s1 nostop [OF ns]])
    also have "\<dots> = Inr (truncate_to (n + 2) s2)"
      using step stop by simp
    finally have "Solver_solve adv terminate validate_data zero (Some U0) extra t
        = Inr (take (n + 2) (self_u s2), take (n + 2) t)"
      using solve s2 by (simp add: truncate_to_def)
    with s2 n len show ?thesis by simp
  qed
  have full: "\<exists>u' s. Solver_solve adv terminate validate_data zero (Some U0) extra t = Inr (u', t)
             \<and> length u' = N + 1 \<and> u' ! 0 = U0
             \<and> run_steps adv [0..<N] ?s0 = Inr s \<and> u' = self_u s"
    if ns: "list_all (\<lambda>j. \<not> stops_at adv terminate ?s0 (j + 1)) [0..<N]"
  proof -
    from run [of N] obtain s1 where s1: "run_steps adv [0..<N] ?s0 = Inr s1"
      "self_t s1 = t" "length (self_u s1) = N + 1" "self_u s1 ! 0 = U0" by auto
    have "time_loop adv terminate ([0..<N] @ []) ?s0 = time_loop adv terminate [] s1"
      by (rule time_loop_prefix [OF s1(1) nostop [OF ns]])
    then have "time_loop adv terminate [0..<N] ?s0 = Inr s1" by simp
    with solve s1 show ?thesis by simp
  qed
  from early full show ?thesis by blast
qed

text \<open>
  A run of forward Euler for \<^verbatim>\<open>u' = 1\<close>, \<^verbatim>\<open>U0 = 0\<close> on the grid \<^verbatim>\<open>[0, 1, 2, 3]\<close>: with
  a terminate function that fires once \<^verbatim>\<open>u\<close> exceeds 1.5 the loop stops after the second
  step, and without one it runs to the end.
\<close>

theorem C2_solve_lengths_and_early_exit_witness:
  "(\<exists>u' t'. Euler_solve above_threshold 0 [0, 1, 2, 3] = Inr (u', t')
       \<and> length u' = 3 \<and> length t' = 3 \<and> u' ! 0 = 0 \<and> t' = [0, 1, 2])
   \<and> (\<exists>u'. Euler_solve never_terminate 0 [0, 1, 2, 3] = Inr (u', [0, 1, 2, 3])
       \<and> length u' = 4 \<and> u' ! 0 = 0)"
proof -
  have valid: "Euler_validate_data [0, 1, 2, 3] = Inr True" by code_simp
  have len: "length [0, 1, 2, 3 :: real] = 3 + 1" by simp
  have a: "(1::nat) < 3
     \<and> stops_at (explicit_advance Euler unit_rhs) above_threshold
         (initial_state 0 0 () [0, 1, 2, 3]) (1 + 1)
     \<and> list_all (\<lambda>j. \<not> stops_at (explicit_advance Euler unit_rhs) above_threshold
                        (initial_state 0 0 () [0, 1, 2, 3]) (j + 1)) [0..<1]"
    by code_simp
  have b: "list_all (\<lambda>j. \<not> stops_at (explicit_advance Euler unit_rhs) never_terminate
                        (initial_state 0 0 () [0, 1, 2, 3]) (j + 1)) [0..<3]"
    by code_simp
  have k: "keeps_grid (explicit_advance Euler unit_rhs :: (real, unit) advance)"
    by (rule explicit_advance_keeps_grid)
  from C2_solve_lengths_and_early_exit [where validate_data = Euler_validate_data
      and t = "[0, 1, 2, 3]" and ok = True and N = 3 and n = 1 and terminate = above_threshold
      and zero = 0 and ?U0.0 = 0 and extra = "()", OF k valid len] a
  have 1: "\<exists>u' t'. Euler_solve above_threshold 0 [0, 1, 2, 3] = Inr (u', t')
       \<and> length u' = 3 \<and> length t' = 3 \<and> u' ! 0 = 0 \<and> t' = [0, 1, 2]"
    unfolding Euler_solve_def by auto
  from C2_solve_lengths_and_early_exit [where validate_data = Euler_validate_data
      and t = "[0, 1, 2, 3]" and ok = True and N = 3 and n = 0 and terminate = never_terminate
      and zero = 0 and ?U0.0 = 0 and extra = "()", OF k valid len] b
  have 2: "\<exists>u'. Euler_solve never_terminate 0 [0, 1, 2, 3] = Inr (u', [0, 1, 2, 3])
       \<and> length u' = 4 \<and> u' ! 0 = 0"
    unfolding Euler_solve_def by auto
  from 1 2 show ?thesis by blast
qed

section \<open>Properties of the grid validation\<close>

lemma sorted_hd_le_last: "sorted (t::real list) \<Longrightarrow> t \<noteq> [] \<Longrightarrow> hd t \<le> last t"
  by (cases t) (auto simp: last_in_set)

lemma sort_eq_iff: "(t::real list) = sort t \<longleftrightarrow> sorted t"
  by (metis sorted_sort sorted_sort_id)

lemma rev_sort_eq_iff: "(t::real list) = rev (sort t) \<longleftrightarrow> sorted (rev t)"
proof
  assume "t = rev (sort t)"
  then have "rev t = sort t" by (metis rev_rev_ident)
  then show "sorted (rev t)" by (metis sorted_sort)
next
  assume a: "sorted (rev t)"
  have "sort t = rev t"
    by (rule properties_for_sort) (use a in auto)
  then show "t = rev (sort t)" by simp
qed

lemma sorted_rev_const:
  assumes "sorted (rev (t::real list))" "t \<noteq> []" "hd t \<le> last t"
  shows "sorted t"
proof -
  have ge: "\<forall>x \<in> set t. x \<le> hd t"
    using assms(1,2) by (cases t) (auto simp: sorted_append)
  have le: "\<forall>x \<in> set t. last t \<le> x"
    using assms(1,2)
    by (induction t rule: rev_induct) (auto simp: sorted_append)
  from ge le assms(3) have "\<forall>x \<in> set t. x = hd t" by fastforce
  then have "\<forall>x \<in> set t. \<forall>y \<in> set t. x \<le> y" by (metis order_refl)
  then show ?thesis
    by (metis sorted_wrt_iff_nth_less nth_mem order_less_trans)
qed

lemma t_sorted_iff:
  assumes "t \<noteq> []"
  shows "t = t_sorted t \<longleftrightarrow> sorted t \<or> sorted (rev t)"
proof (cases "hd t > last t")
  case True
  then have "\<not> sorted t" using sorted_hd_le_last [OF _ assms] by fastforce
  with True show ?thesis by (simp add: t_sorted_def rev_sort_eq_iff)
next
  case False
  then have "sorted (rev t) \<Longrightarrow> sorted t" using sorted_rev_const [OF _ assms] by simp
  with False show ?thesis by (auto simp add: t_sorted_def sort_eq_iff)
qed

lemma strict_desc_sorted_rev: "sorted_wrt (>) (t::real list) \<Longrightarrow> sorted (rev t)"
  by (simp add: sorted_wrt_rev sorted_wrt_mono_rel [where P = "(>)"] )

lemma validate_data_monotonic:
  assumes "t \<noteq> []"
  shows "Solver_validate_data self (Numbers t) =
           (if \<not> (sorted t \<or> sorted (rev t)) then Inl ValueError
            else if list_all (py_hasattr self) (required_parameters self) then Inr True
            else Inl ValueError)"
  using assms t_sorted_iff [OF assms]
  by (auto simp: Solver_validate_data_def list_ex_iff list_all_iff)

text \<open>
  Claim C3, as stated, fails: \<^verbatim>\<open>Solver.validate_data\<close> compares the grid with its
  sorted copy, which a repeated value does not change.  The grid \<^verbatim>\<open>[0, 1, 1, 2]\<close> is not
  strictly monotonic, yet it passes the validation and \<^verbatim>\<open>solve\<close> returns a solution;
  so does the one-point grid \<^verbatim>\<open>[0]\<close>.
\<close>

theorem C3_repeated_value_accepted:
  "Euler_validate_data [0, 1, 1, 2] = Inr True
   \<and> \<not> sorted_wrt (<) [0, 1, 1, 2 :: real] \<and> \<not> sorted_wrt (>) [0, 1, 1, 2 :: real]
   \<and> Euler_solve never_terminate 0 [0, 1, 1, 2] = Inr ([0, 1, 1, 2], [0, 1, 1, 2])
   \<and> Euler_validate_data [0] = Inr True
   \<and> Euler_solve never_terminate 0 [0] = Inr ([0], [0])"
  by code_simp

text \<open>
  Claim C3, amended.  For a grid of real numbers with at least one point: if it is neither
  non-decreasing nor non-increasing, \<^verbatim>\<open>Solver.validate_data\<close> raises \<^verbatim>\<open>ValueError\<close> and
  so does \<^verbatim>\<open>solve\<close> (for an instance with an initial condition); if it is non-decreasing
  or non-increasing, and in particular if it is strictly ascending or strictly descending
  with at least 2 points, the validation passes, provided the required parameters are
  attributes of the instance.
\<close>

theorem C3_monotonic_grid_validation:
  assumes "t \<noteq> []"
  shows "(\<not> sorted t \<and> \<not> sorted (rev t) \<longrightarrow>
            Solver_validate_data self (Numbers t) = Inl ValueError
            \<and> Solver_solve adv terminate (\<lambda>t. Solver_validate_data self (Numbers t)) zero
                 (Some U0) extra t = Inl ValueError)
       \<and> ((sorted t \<or> sorted (rev t)) \<and> list_all (py_hasattr self) (required_parameters self) \<longrightarrow>
            Solver_validate_data self (Numbers t) = Inr True)
       \<and> ((sorted_wrt (<) t \<or> sorted_wrt (>) t) \<and> 2 \<le> length t
            \<and> list_all (py_hasattr self) (required_parameters self) \<longrightarrow>
            Solver_validate_data self (Numbers t) = Inr True)"
proof -
  have strict: "sorted t \<or> sorted (rev t)" if "sorted_wrt (<) t \<or> sorted_wrt (>) t"
    using that strict_sorted_imp_sorted [of t] strict_desc_sorted_rev [of t]
    by (auto simp: strict_sorted_iff)
  show ?thesis
    using assms strict
    by (auto simp: validate_data_monotonic [OF assms] Solver_solve_def allocate_u_def)
qed

theorem C3_monotonic_grid_validation_witness:
  "Solver_validate_data Euler_instance (Numbers [0, 2, 1]) = Inl ValueError
   \<and> Euler_solve never_terminate 0 [0, 2, 1] = Inl ValueError
   \<and> Solver_validate_data Euler_instance (Numbers [0, 1, 1]) = Inr True
   \<and> Solver_validate_data Euler_instance (Numbers [3, 2, 1]) = Inr True"
proof -
  have ne: "[0, 2, 1 :: real] \<noteq> []" "[0, 1, 1 :: real] \<noteq> []" "[3, 2, 1 :: real] \<noteq> []" by simp_all
  have req: "list_all (py_hasattr Euler_instance) (required_parameters Euler_instance)"
    by code_simp
  have a: "\<not> sorted [0, 2, 1 :: real] \<and> \<not> sorted (rev [0, 2, 1 :: real])" by simp
  have b: "sorted [0, 1, 1 :: real] \<or> sorted (rev [0, 1, 1 :: real])" by simp
  have c: "(sorted_wrt (<) [3, 2, 1 :: real] \<or> sorted_wrt (>) [3, 2, 1 :: real])
             \<and> 2 \<le> length [3, 2, 1 :: real]" by simp
  from C3_monotonic_grid_validation [OF ne(1), where self = Euler_instance
      and adv = "explicit_advance Euler unit_rhs" and terminate = never_terminate
      and zero = 0 and ?U0.0 = 0 and extra = "()"] a
  have 1: "Solver_validate_data Euler_instance (Numbers [0, 2, 1]) = Inl ValueError
   \<and> Euler_solve never_terminate 0 [0, 2, 1] = Inl ValueError"
    unfolding Euler_solve_def Euler_validate_data_def by blast
  from C3_monotonic_grid_validation [OF ne(2), where self = Euler_instance
      and adv = "explicit_advance Euler unit_rhs" and terminate = never_terminate
      and zero = 0 and ?U0.0 = 0 and extra = "()"] b req
  have 2: "Solver_validate_data Euler_instance (Numbers [0, 1, 1]) = Inr True" by blast
  from C3_monotonic_grid_validation [OF ne(3), where self = Euler_instance
      and adv = "explicit_advance Euler unit_rhs" and terminate = never_terminate
      and zero = 0 and ?U0.0 = 0 and extra = "()"] c req
  have 3: "Solver_validate_data Euler_instance (Numbers [3, 2, 1]) = Inr True" by blast
  from 1 2 3 show ?thesis by blast
qed

section \<open>The uniform-grid check of the multistep solvers\<close>

lemma multistep_validate_data_raises:
  "t \<noteq> [] \<Longrightarrow> \<not> constant_time_step t \<Longrightarrow> \<not> py_hasattr self ''__name__'' \<Longrightarrow>
     multistep_validate_data self t = Inl AttributeError"
  by (auto simp: multistep_validate_data_def py_getattr_def py_hasattr_def split: option.splits)

text \<open>
  Claim C4.  On a non-uniform grid \<^verbatim>\<open>validate_data\<close> of the Adams-Bashforth classes
  formats its message from \<^verbatim>\<open>self.__name__\<close>, an attribute that an instance does not
  have (\<^verbatim>\<open>Solver.validate_data\<close> uses \<^verbatim>\<open>self.__class__.__name__\<close>).  For the grid
  \<^verbatim>\<open>[0, 1, 3]\<close> the call raises \<^verbatim>\<open>AttributeError\<close> instead of returning \<^verbatim>\<open>False\<close>.
\<close>

theorem C4_nonuniform_grid_raises:
  "multistep_validate_data AdamsBashforth2_instance [0, 1, 3] = Inl AttributeError
   \<and> \<not> constant_time_step [0, 1, 3]
   \<and> multistep_validate_data AdamsBashforth2_instance [0, 1, 2] = Inr True"
  by code_simp

section \<open>Properties of \<^verbatim>\<open>set_initial_condition\<close>\<close>





section \<open>Properties of \<^verbatim>\<open>Solver.set\<close>\<close>

lemma name_loop_without_None:
  "list_all (\<lambda>(name, v). v \<noteq> PNone) kwargs_copy \<Longrightarrow>
     snd (name_loop strict params kwargs_copy kwargs self) = self"
  by (induction kwargs_copy arbitrary: kwargs) auto

lemma set_without_None_keeps_instance:
  assumes "str_funcs kwargs = []" "list_all (\<lambda>(name, v). v \<noteq> PNone) kwargs"
      and "fst (set_parameters f2py self strict kwargs) = Some e"
  shows "snd (set_parameters f2py self strict kwargs) = self"
proof -
  obtain r self' where nl: "name_loop strict (parameters self) kwargs kwargs self = (r, self')"
    by (cases "name_loop strict (parameters self) kwargs kwargs self")
  with name_loop_without_None [OF assms(2), of strict "parameters self" kwargs self]
  have "self' = self" by simp
  with assms(1,3) nl show ?thesis
    by (auto simp: set_parameters_def compile_string_functions_def split: sum.splits)
qed

text \<open>
  Claim C1.  The loop over the names deletes the attribute of a parameter given as
  \<^verbatim>\<open>None\<close> before any value is checked.  \<^verbatim>\<open>set(f_args=None, theta=5)\<close> on a
  \<^verbatim>\<open>ThetaRule\<close> instance fails with \<^verbatim>\<open>ValueError\<close>, since 5 is outside the range
  \<^verbatim>\<open>[0, 1]\<close> of \<^verbatim>\<open>theta\<close>, and leaves the instance without the attribute \<^verbatim>\<open>f_args\<close>,
  which it had before the call; \<^verbatim>\<open>theta\<close> keeps its value.
\<close>

theorem C1_failed_set_removes_attribute:
  "fst (set_parameters no_f2py ThetaRule_instance False
          [(''f_args'', PNone), (''theta'', PInt 5)]) = Some ValueError
   \<and> config (snd (set_parameters no_f2py ThetaRule_instance False
          [(''f_args'', PNone), (''theta'', PInt 5)])) ''f_args'' = None
   \<and> config ThetaRule_instance ''f_args'' = Some (PTuple [])
   \<and> config (snd (set_parameters no_f2py ThetaRule_instance False
          [(''f_args'', PNone), (''theta'', PInt 5)])) ''theta'' = Some (PFloat (1 / 2))"
  by code_simp

lemma range_check_skips_non_numbers:
  "list_all (\<lambda>(name, v). num_of v = None) kwargs \<Longrightarrow> check_input_range params kwargs = Inr True"
proof (induction params)
  case Nil
  then show ?case by simp
next
  case (Cons p ps)
  obtain name spec where p: "p = (name, spec)" by (cases p)
  have "range_ok ranges v" if "map_of kwargs name = Some v" for v ranges
  proof -
    from that have "(name, v) \<in> set kwargs" by (rule map_of_SomeD)
    with Cons.prems have "num_of v = None" by (auto simp: list_all_iff)
    then show ?thesis by (simp add: range_ok_def)
  qed
  with Cons p show ?case by (auto split: option.splits)
qed

text \<open>
  Claim C9.  \<^verbatim>\<open>check_input_range\<close> looks only at values that are numbers, so a string is
  never compared with the enumerated range of its parameter.
  \<^verbatim>\<open>set(nonlinear_solver='Foo')\<close> on a \<^verbatim>\<open>BackwardEuler\<close> instance, whose registered range
  is \<^verbatim>\<open>('Newton', 'Picard')\<close>, succeeds and assigns \<^verbatim>\<open>'Foo'\<close>.
\<close>

theorem C9_string_outside_range_accepted:
  "fst (set_parameters no_f2py BackwardEuler_instance False
          [(''nonlinear_solver'', PStr ''Foo'')]) = None
   \<and> config (snd (set_parameters no_f2py BackwardEuler_instance False
          [(''nonlinear_solver'', PStr ''Foo'')])) ''nonlinear_solver'' = Some (PStr ''Foo'')
   \<and> map_option prange (map_of (parameters BackwardEuler_instance) ''nonlinear_solver'')
        = Some (Some [PStr ''Newton'', PStr ''Picard''])"
  by code_simp

section \<open>Properties of the Runge-Kutta-Fehlberg controller\<close>


lemma middle_between: "min y z \<le> middle x y z \<and> middle x y z \<le> max y z"
  by (auto simp: middle_def)

lemma step_factor_range: "1 / 10 \<le> step_factor tol error \<and> step_factor tol error \<le> 4"
  using middle_between [of "1 / 10" 4] by (simp add: step_factor_def)

lemma step_factor_system_range:
  assumes "tol \<noteq> []" "error \<noteq> []"
  shows "1 / 10 \<le> step_factor_system tol error \<and> step_factor_system tol error \<le> 4"
proof -
  let ?S = "set (map (\<lambda>(tl, e). middle ((tl / (2 * zero_floor e)) powr (1 / 4)) (1 / 10) 4)
                 (zip tol error))"
  have ne: "?S \<noteq> {}" using assms by (cases tol; cases error) auto
  have "\<forall>x \<in> ?S. 1 / 10 \<le> x \<and> x \<le> 4"
    using middle_between [of "1 / 10" 4] by auto
  moreover have "Min ?S \<in> ?S" using ne by (intro Min_in) auto
  ultimately show ?thesis unfolding step_factor_system_def by blast
qed













end
